theory Spec2Isabelle
  imports Main "HOL-Library.Sublist"
begin

section \<open>JavaScript strings\<close>

text \<open>
  A string is a list of 8-bit characters, and the model is exact on ASCII text (tickers are
  upper-case letters): the white space that \<open>String.prototype.trim\<close> and \<open>parseFloat\<close>
  remove is TAB, LF, VT, FF, CR and SPACE, and \<open>toLowerCase\<close> maps \<open>A\<close>..\<open>Z\<close> to
  \<open>a\<close>..\<open>z\<close>.
\<close>

definition isWhiteSpace :: "char \<Rightarrow> bool" where
  "isWhiteSpace c = (c \<in> set [CHR 0x09, CHR 0x0A, CHR 0x0B, CHR 0x0C, CHR 0x0D, CHR '' ''])"

definition trimStart :: "string \<Rightarrow> string" where
  "trimStart s = dropWhile isWhiteSpace s"

definition trim :: "string \<Rightarrow> string" where
  "trim s = rev (trimStart (rev (trimStart s)))"

section \<open>Watchlist store (AddToWatchlistModal)\<close>

record watchlist =
  name :: string
  stocks :: "string list"

text \<open>
  The modal's React state (\<open>watchlists\<close>, \<open>newName\<close>, \<open>selected\<close>) together with the
  AsyncStorage item kept under \<open>STORAGE_KEY\<close>: \<open>None\<close> while the key was never written,
  otherwise the collection that \<open>JSON.stringify\<close> serialised. The write is taken to succeed.
\<close>

record modal =
  watchlists :: "watchlist list"
  newName :: string
  selected :: "string \<rightharpoonup> bool"
  storage :: "watchlist list option"

text \<open>\<open>loadWatchlists\<close>: read the item, an absent item is the empty collection.\<close>

definition persisted :: "modal \<Rightarrow> watchlist list" where
  "persisted st = (case storage st of None \<Rightarrow> [] | Some ws \<Rightarrow> ws)"

definition loadWatchlists :: "string \<Rightarrow> modal \<Rightarrow> modal" where
  "loadWatchlists symbol st =
     st\<lparr>watchlists := persisted st,
        selected := fold (\<lambda>wl sel. sel(name wl \<mapsto> symbol \<in> set (stocks wl))) (persisted st) Map.empty\<rparr>"

definition saveWatchlists :: "watchlist list \<Rightarrow> modal \<Rightarrow> modal" where
  "saveWatchlists ws st = st\<lparr>storage := Some ws, watchlists := ws\<rparr>"

definition handleAddWatchlist :: "modal \<Rightarrow> modal" where
  "handleAddWatchlist st =
     (if trim (newName st) = [] then st
      else if list_ex (\<lambda>wl. name wl = trim (newName st)) (watchlists st) then st
      else (saveWatchlists
              (watchlists st @ [\<lparr>name = trim (newName st), stocks = []\<rparr>]) st)
             \<lparr>newName := []\<rparr>)"

text \<open>\<open>create n\<close>: the user types \<open>n\<close> into the name field (\<open>setNewName\<close>) and presses Add.\<close>

definition create :: "string \<Rightarrow> modal \<Rightarrow> modal" where
  "create n st = handleAddWatchlist (st\<lparr>newName := n\<rparr>)"

text \<open>The callback that \<open>handleToggle\<close> maps over the collection.\<close>

definition toggleIn :: "string \<Rightarrow> string \<Rightarrow> watchlist \<Rightarrow> watchlist" where
  "toggleIn symbol nm wl =
     (if name wl \<noteq> nm then wl
      else let exists = symbol \<in> set (stocks wl)
           in wl\<lparr>stocks := (if exists then filter (\<lambda>s. s \<noteq> symbol) (stocks wl)
                             else stocks wl @ [symbol])\<rparr>)"

definition handleToggle :: "string \<Rightarrow> string \<Rightarrow> modal \<Rightarrow> modal" where
  "handleToggle symbol nm st =
     (saveWatchlists (map (toggleIn symbol nm) (watchlists st)) st)
       \<lparr>selected := (selected st)(nm \<mapsto> \<not> (case selected st nm of None \<Rightarrow> False | Some b \<Rightarrow> b))\<rparr>"

text \<open>A stored collection used to instantiate the theorems below.\<close>

definition st0 :: modal where
  "st0 =
     \<lparr>watchlists = [\<lparr>name = ''Tech'', stocks = [''MSFT'']\<rparr>, \<lparr>name = ''Energy'', stocks = []\<rparr>],
      newName = [], selected = Map.empty,
      storage = Some [\<lparr>name = ''Tech'', stocks = [''MSFT'']\<rparr>, \<lparr>name = ''Energy'', stocks = []\<rparr>]\<rparr>"

section \<open>JavaScript values read from JSON\<close>

text \<open>
  The values \<open>JSON.parse\<close> produces. A number is kept as the text that \<open>ToString\<close> gives
  it (\<open>''190.5''\<close>, \<open>''0''\<close> for both zeros, \<open>''Infinity''\<close>, \<open>''NaN''\<close>), which is all the
  validators use of it. An object is the list of its own properties; \<open>undefined\<close>, the
  value of a missing property, is \<open>None\<close> of \<open>json option\<close>.
\<close>

datatype json =
    JNull
  | JBool bool
  | JNum string
  | JStr string
  | JArr "json list"
  | JObj "(string \<times> json) list"

text \<open>
  A thrown value: an \<open>Error\<close> object with its \<open>name\<close> and \<open>message\<close>, or anything else.
  The wording of a \<open>TypeError\<close> message differs between engines; the program looks only
  for the words \<open>network\<close> and \<open>timeout\<close> in it, which no engine's wording has.
\<close>

datatype thrown = Err string string | NonError

definition TypeError_toPrimitive :: thrown where
  "TypeError_toPrimitive = Err ''TypeError'' ''Cannot convert object to primitive value''"

definition TypeError_nullProperty :: thrown where
  "TypeError_nullProperty = Err ''TypeError'' ''Cannot read property of null''"

fun truthy :: "json option \<Rightarrow> bool" where
  "truthy None = False"
| "truthy (Some JNull) = False"
| "truthy (Some (JBool b)) = b"
| "truthy (Some (JNum r)) = (r \<noteq> ''0'' \<and> r \<noteq> ''NaN'')"
| "truthy (Some (JStr s)) = (s \<noteq> [])"
| "truthy (Some (JArr xs)) = True"
| "truthy (Some (JObj kvs)) = True"

fun typeof :: "json option \<Rightarrow> string" where
  "typeof None = ''undefined''"
| "typeof (Some JNull) = ''object''"
| "typeof (Some (JBool b)) = ''boolean''"
| "typeof (Some (JNum r)) = ''number''"
| "typeof (Some (JStr s)) = ''string''"
| "typeof (Some (JArr xs)) = ''object''"
| "typeof (Some (JObj kvs)) = ''object''"

text \<open>
  Property read \<open>v[k]\<close> for the keys the program uses (none is an array index or
  \<open>length\<close>): an own property of an object, \<open>undefined\<close> on an array or a primitive.
  On \<open>null\<close> and \<open>undefined\<close> the read throws; the callers below test for them first.
\<close>

fun getProp :: "json \<Rightarrow> string \<Rightarrow> json option" where
  "getProp (JObj kvs) k = map_of kvs k"
| "getProp v k = None"

text \<open>\<open>Array.prototype.join\<close> with a comma, over elements already converted.\<close>

fun joinComma :: "string list \<Rightarrow> string" where
  "joinComma [] = []"
| "joinComma [s] = s"
| "joinComma (s # t # ts) = s @ '','' @ joinComma (t # ts)"

text \<open>Running a list of fallible steps from left to right, stopping at the first throw.\<close>

fun sequence :: "(thrown + 'a) list \<Rightarrow> thrown + 'a list" where
  "sequence [] = Inr []"
| "sequence (Inl e # rs) = Inl e"
| "sequence (Inr x # rs) = (case sequence rs of Inl e \<Rightarrow> Inl e | Inr xs \<Rightarrow> Inr (x # xs))"

text \<open>
  \<open>ToString\<close>. An array prints its elements joined by commas, \<open>null\<close> elements as the
  empty text. A plain object prints as \<open>[object Object]\<close> through the inherited
  \<open>Object.prototype.toString\<close>; an own property named \<open>toString\<close> shadows that method with
  a value that is not callable, \<open>valueOf\<close> then returns the object itself (or is shadowed
  as well), and the conversion throws a \<open>TypeError\<close>.
\<close>

fun ToString :: "json \<Rightarrow> thrown + string" where
  "ToString JNull = Inr ''null''"
| "ToString (JBool b) = Inr (if b then ''true'' else ''false'')"
| "ToString (JNum r) = Inr r"
| "ToString (JStr s) = Inr s"
| "ToString (JArr xs) =
     (case sequence (map (\<lambda>x. if x = JNull then Inr [] else ToString x) xs) of
        Inl e \<Rightarrow> Inl e
      | Inr ss \<Rightarrow> Inr (joinComma ss))"
| "ToString (JObj kvs) =
     (if map_of kvs ''toString'' \<noteq> None then Inl TypeError_toPrimitive
      else Inr ''[object Object]'')"

text \<open>
  \<open>parseFloat\<close>, up to what \<open>isNaN\<close> and finiteness can see of its result: after leading
  white space and an optional sign, the text starts with \<open>Infinity\<close>, or with a decimal
  literal (a digit, or a dot followed by a digit), or the result is \<open>NaN\<close>. \<open>Decimal\<close>
  stands for the double nearest to the literal read.
\<close>

datatype parsed = NaN | Infinity | Decimal

definition isDigit :: "char \<Rightarrow> bool" where
  "isDigit c = (c \<in> set ''0123456789'')"

definition dropSign :: "string \<Rightarrow> string" where
  "dropSign s = (case s of [] \<Rightarrow> [] | c # r \<Rightarrow> if c = CHR ''+'' \<or> c = CHR ''-'' then r else s)"

definition parseFloat_string :: "string \<Rightarrow> parsed" where
  "parseFloat_string s =
     (let u = dropSign (trimStart s)
      in if prefix ''Infinity'' u then Infinity
         else case u of
                [] \<Rightarrow> NaN
              | c # r \<Rightarrow>
                  if isDigit c then Decimal
                  else if c = CHR ''.'' \<and> r \<noteq> [] \<and> isDigit (hd r) then Decimal
                  else NaN)"

definition parseFloat :: "json option \<Rightarrow> thrown + parsed" where
  "parseFloat v =
     (case v of
        None \<Rightarrow> Inr (parseFloat_string ''undefined'')
      | Some x \<Rightarrow> (case ToString x of Inl e \<Rightarrow> Inl e | Inr s \<Rightarrow> Inr (parseFloat_string s)))"

definition isNaN :: "parsed \<Rightarrow> bool" where
  "isNaN p = (p = NaN)"

section \<open>Response validator (services/api)\<close>

text \<open>
  The callback of \<open>data.filter\<close> in \<open>validateStockData\<close>, check by check in the source's
  order. \<open>parseFloat\<close> is the only step that can throw.
\<close>

definition stockItemOk :: "json \<Rightarrow> thrown + bool" where
  "stockItemOk item =
     (if \<not> truthy (Some item) \<or> typeof (Some item) \<noteq> ''object'' then Inr False
      else if \<not> truthy (getProp item ''ticker'') \<or> typeof (getProp item ''ticker'') \<noteq> ''string''
              \<or> (case getProp item ''ticker'' of Some (JStr s) \<Rightarrow> trim s = [] | _ \<Rightarrow> False)
           then Inr False
      else if \<not> truthy (getProp item ''price'') then Inr False
      else case parseFloat (getProp item ''price'') of
        Inl e \<Rightarrow> Inl e
      | Inr p \<Rightarrow>
          if isNaN p then Inr False
          else case (if getProp item ''change_amount'' \<noteq> None
                     then parseFloat (getProp item ''change_amount'') else Inr Decimal) of
            Inl e \<Rightarrow> Inl e
          | Inr ca \<Rightarrow>
              if getProp item ''change_amount'' \<noteq> None \<and> isNaN ca then Inr False
              else case (if getProp item ''change_percentage'' \<noteq> None
                         then parseFloat (getProp item ''change_percentage'') else Inr Decimal) of
                Inl e \<Rightarrow> Inl e
              | Inr cp \<Rightarrow>
                  if getProp item ''change_percentage'' \<noteq> None \<and> isNaN cp then Inr False
                  else Inr True)"

text \<open>\<open>Array.prototype.filter\<close> with a callback that may throw.\<close>

fun filterE :: "('a \<Rightarrow> thrown + bool) \<Rightarrow> 'a list \<Rightarrow> thrown + 'a list" where
  "filterE f [] = Inr []"
| "filterE f (x # xs) =
     (case f x of
        Inl e \<Rightarrow> Inl e
      | Inr b \<Rightarrow> (case filterE f xs of
                    Inl e \<Rightarrow> Inl e
                  | Inr ys \<Rightarrow> Inr (if b then x # ys else ys)))"

definition validateStockData :: "json option \<Rightarrow> thrown + json list" where
  "validateStockData d =
     (case d of
        Some (JArr xs) \<Rightarrow> filterE stockItemOk xs
      | _ \<Rightarrow> Inr [])"

record TopGainersResponse =
  top_gainers :: "json list"
  top_losers :: "json list"
  last_updated_utc :: "json option"

text \<open>The result \<open>None\<close> is the \<open>null\<close> that the function returns.\<close>

definition validateTopGainersResponse :: "json option \<Rightarrow> thrown + TopGainersResponse option" where
  "validateTopGainersResponse d =
     (if \<not> truthy d \<or> typeof d \<noteq> ''object'' then Inr None
      else let obj = the d in
        if truthy (getProp obj ''Error Message'') \<or> truthy (getProp obj ''Note'') then Inr None
        else case (if truthy (getProp obj ''top_gainers'')
                   then validateStockData (getProp obj ''top_gainers'') else Inr []) of
          Inl e \<Rightarrow> Inl e
        | Inr gs \<Rightarrow>
            (case (if truthy (getProp obj ''top_losers'')
                   then validateStockData (getProp obj ''top_losers'') else Inr []) of
               Inl e \<Rightarrow> Inl e
             | Inr ls \<Rightarrow>
                 Inr (Some \<lparr>top_gainers = gs, top_losers = ls,
                            last_updated_utc =
                              (if truthy (getProp obj ''last_updated_utc'')
                               then getProp obj ''last_updated_utc'' else None)\<rparr>)))"

text \<open>
  A value is printable when \<open>ToString\<close> returns on it, and an entry has printable fields
  when the three values \<open>parseFloat\<close> may be given are absent or printable.
\<close>

definition printable :: "json \<Rightarrow> bool" where
  "printable v = (case ToString v of Inl e \<Rightarrow> False | Inr s \<Rightarrow> True)"

definition fieldsPrintable :: "json \<Rightarrow> bool" where
  "fieldsPrintable item =
     list_all (\<lambda>k. case getProp item k of None \<Rightarrow> True | Some v \<Rightarrow> printable v)
       [''price'', ''change_amount'', ''change_percentage'']"


text \<open>The result of \<open>parseFloat\<close> is a number other than \<open>NaN\<close>, and a finite one.\<close>

definition parsesAsNumber :: "json option \<Rightarrow> bool" where
  "parsesAsNumber v = (parseFloat v = Inr Decimal \<or> parseFloat v = Inr Infinity)"

definition parsesAsFiniteNumber :: "json option \<Rightarrow> bool" where
  "parsesAsFiniteNumber v = (parseFloat v = Inr Decimal)"

text \<open>
  The entries that the specification says are kept: objects with a non-empty string
  ticker, a price that parses as a number, and change fields that, when present, parse as
  finite numbers.
\<close>

definition claimedEntryOk :: "json \<Rightarrow> bool" where
  "claimedEntryOk item =
     (item \<noteq> JNull \<and> typeof (Some item) = ''object''
      \<and> (case getProp item ''ticker'' of Some (JStr s) \<Rightarrow> s \<noteq> [] | _ \<Rightarrow> False)
      \<and> parsesAsNumber (getProp item ''price'')
      \<and> (getProp item ''change_amount'' = None
           \<or> parsesAsFiniteNumber (getProp item ''change_amount''))
      \<and> (getProp item ''change_percentage'' = None
           \<or> parsesAsFiniteNumber (getProp item ''change_percentage'')))"

text \<open>
  The entries that the code keeps, said declaratively: objects with a string ticker that
  is not blank, a truthy price that parses as a number, and change fields that, when
  present, parse as a number (\<open>Infinity\<close> included).
\<close>

definition acceptedEntry :: "json \<Rightarrow> bool" where
  "acceptedEntry item =
     (item \<noteq> JNull \<and> typeof (Some item) = ''object''
      \<and> (case getProp item ''ticker'' of Some (JStr s) \<Rightarrow> trim s \<noteq> [] | _ \<Rightarrow> False)
      \<and> truthy (getProp item ''price'')
      \<and> parsesAsNumber (getProp item ''price'')
      \<and> (getProp item ''change_amount'' = None
           \<or> parsesAsNumber (getProp item ''change_amount''))
      \<and> (getProp item ''change_percentage'' = None
           \<or> parsesAsNumber (getProp item ''change_percentage'')))"


text \<open>Entries and payloads used to evaluate the validators.\<close>

definition entryInfinity :: json where
  "entryInfinity =
     JObj [(''ticker'', JStr ''A''), (''price'', JStr ''1''), (''change_amount'', JStr ''Infinity'')]"

definition entryBlankTicker :: json where
  "entryBlankTicker = JObj [(''ticker'', JStr '' ''), (''price'', JStr ''1'')]"

definition entryZeroPrice :: json where
  "entryZeroPrice = JObj [(''ticker'', JStr ''A''), (''price'', JNum ''0'')]"

definition entryGood :: json where
  "entryGood =
     JObj [(''ticker'', JStr ''AAPL''), (''price'', JStr ''190.00''),
           (''change_amount'', JStr ''1.5''), (''change_percentage'', JStr ''0.79%'')]"

definition entryShadowed :: json where
  "entryShadowed = JObj [(''ticker'', JStr ''A''), (''price'', JObj [(''toString'', JNum ''1'')])]"

definition payloadGood :: json where
  "payloadGood =
     JObj [(''top_gainers'', JArr [entryGood, JNull]), (''top_losers'', JStr ''none'')]"


section \<open>Request client (services/api)\<close>

record config =
  TIMEOUT :: nat
  RETRY_ATTEMPTS :: nat
  RETRY_DELAY :: nat

text \<open>The numeric part of \<open>API_CONFIG\<close>; times are in milliseconds.\<close>

definition API_CONFIG :: config where
  "API_CONFIG = \<lparr>TIMEOUT = 10000, RETRY_ATTEMPTS = 3, RETRY_DELAY = 1000\<rparr>"

text \<open>\<open>String.prototype.includes\<close>: the argument occurs as a contiguous part.\<close>

primrec includesStr :: "string \<Rightarrow> string \<Rightarrow> bool" where
  "includesStr [] sub = (sub = [])"
| "includesStr (c # s) sub = (prefix sub (c # s) \<or> includesStr s sub)"

text \<open>The decimal text of a status code, as the template literal prints it.\<close>

definition digitChar :: "nat \<Rightarrow> char" where
  "digitChar n = ''0123456789'' ! (n mod 10)"

fun showNat :: "nat \<Rightarrow> string" where
  "showNat n = (if n < 10 then [digitChar n] else showNat (n div 10) @ [digitChar n])"

declare showNat.simps [simp del]

text \<open>\<open>response.ok\<close>: the status is in the range 200 to 299.\<close>

definition ok :: "nat \<Rightarrow> bool" where
  "ok status = (200 \<le> status \<and> status \<le> 299)"

text \<open>
  What the network does with one \<open>fetch\<close>: after \<open>latency\<close> milliseconds the promise is
  rejected with a thrown value, or resolved with a response of some status whose
  \<open>json()\<close> is rejected or gives a value.
\<close>

datatype body = JsonRejects thrown | JsonData json

datatype settled = Rejected thrown | Responded nat body

record attempt =
  latency :: nat
  outcome :: settled

text \<open>\<open>throw new Error(v)\<close> for a truthy property value: the message is \<open>ToString v\<close>.\<close>

definition throwNewError :: "json option \<Rightarrow> thrown + json" where
  "throwNewError v =
     (case v of
        None \<Rightarrow> Inl (Err ''Error'' [])
      | Some x \<Rightarrow> (case ToString x of Inl e \<Rightarrow> Inl e | Inr m \<Rightarrow> Inl (Err ''Error'' m)))"

text \<open>
  The \<open>try\<close> block of \<open>makeRequest\<close>. The timer armed for \<open>TIMEOUT\<close> aborts a fetch that
  has not settled by then, and the fetch is rejected with an \<open>AbortError\<close>. Reading a
  property of a \<open>null\<close> body throws a \<open>TypeError\<close>.
\<close>

definition tryRequest :: "attempt \<Rightarrow> thrown + json" where
  "tryRequest a =
     (if TIMEOUT API_CONFIG \<le> latency a then Inl (Err ''AbortError'' ''Aborted'')
      else case outcome a of
        Rejected e \<Rightarrow> Inl e
      | Responded status b \<Rightarrow>
          if \<not> ok status then Inl (Err ''Error'' (''HTTP error! status: '' @ showNat status))
          else case b of
            JsonRejects e \<Rightarrow> Inl e
          | JsonData d \<Rightarrow>
              if d = JNull then Inl TypeError_nullProperty
              else if truthy (getProp d ''Error Message'')
                then throwNewError (getProp d ''Error Message'')
              else if truthy (getProp d ''Note'') then throwNewError (getProp d ''Note'')
              else Inr d)"

text \<open>
  \<open>makeRequest\<close> with its \<open>catch\<close> block. The network is a function from the retry count
  to what happens to the fetch issued at that count. The result comes with the trace of
  fetches issued and delays waited, in order.
\<close>

datatype event = Fetch | Delay nat

function makeRequest :: "(nat \<Rightarrow> attempt) \<Rightarrow> nat \<Rightarrow> event list \<times> (thrown + json)" where
  "makeRequest net retryCount =
     (case tryRequest (net retryCount) of
        Inr d \<Rightarrow> ([Fetch], Inr d)
      | Inl error \<Rightarrow>
          (case error of
             Err nm msg \<Rightarrow>
               if nm = ''AbortError'' then ([Fetch], Inl (Err ''Error'' ''Request timeout''))
               else if retryCount < RETRY_ATTEMPTS API_CONFIG
                       \<and> (includesStr msg ''network'' \<or> includesStr msg ''timeout'')
               then (case makeRequest net (retryCount + 1) of
                       (evs, r) \<Rightarrow>
                         (Fetch # Delay (RETRY_DELAY API_CONFIG * (retryCount + 1)) # evs, r))
               else ([Fetch], Inl error)
           | NonError \<Rightarrow> ([Fetch], Inl error)))"
  by pat_completeness auto
termination
  by (relation "measure (\<lambda>(net, retryCount). RETRY_ATTEMPTS API_CONFIG - retryCount)") auto

declare makeRequest.simps [simp del]

text \<open>\<open>getTopGainers\<close> and \<open>getTopLosers\<close>: request, validate, rethrow with the message.\<close>

definition getMovers ::
  "(TopGainersResponse \<Rightarrow> json list) \<Rightarrow> string \<Rightarrow> (nat \<Rightarrow> attempt)
     \<Rightarrow> event list \<times> (thrown + json list)" where
  "getMovers field fallback net =
     (case makeRequest net 0 of
        (evs, r) \<Rightarrow>
          (evs,
           case (case r of
                   Inl e \<Rightarrow> Inl e
                 | Inr response \<Rightarrow>
                     (case validateTopGainersResponse (Some response) of
                        Inl e \<Rightarrow> Inl e
                      | Inr None \<Rightarrow> Inl (Err ''Error'' ''Invalid response format'')
                      | Inr (Some validatedResponse) \<Rightarrow> Inr (field validatedResponse))) of
             Inl (Err nm msg) \<Rightarrow> Inl (Err ''Error'' msg)
           | Inl NonError \<Rightarrow> Inl (Err ''Error'' fallback)
           | Inr xs \<Rightarrow> Inr xs))"

definition getTopGainers :: "(nat \<Rightarrow> attempt) \<Rightarrow> event list \<times> (thrown + json list)" where
  "getTopGainers = getMovers top_gainers ''Failed to fetch top gainers data''"

definition getTopLosers :: "(nat \<Rightarrow> attempt) \<Rightarrow> event list \<times> (thrown + json list)" where
  "getTopLosers = getMovers top_losers ''Failed to fetch top losers data''"

text \<open>
  The classification the \<open>catch\<close> block makes of a failure it may retry, and the trace of
  a request that was retried \<open>n\<close> times: before the \<open>k\<close>-th retry it waits \<open>k * 1000\<close>.
\<close>

definition transient :: "thrown \<Rightarrow> bool" where
  "transient e =
     (case e of
        Err nm msg \<Rightarrow> nm \<noteq> ''AbortError'' \<and> (includesStr msg ''network'' \<or> includesStr msg ''timeout'')
      | NonError \<Rightarrow> False)"

definition retrySchedule :: "nat \<Rightarrow> event list" where
  "retrySchedule n = Fetch # concat (map (\<lambda>k. [Delay (k * 1000), Fetch]) [1..<Suc n])"


text \<open>Networks used to evaluate the request client.\<close>

definition slowNet :: "nat \<Rightarrow> attempt" where
  "slowNet k = \<lparr>latency = 15000, outcome = Responded 200 (JsonData payloadGood)\<rparr>"

definition flakyNet :: "nat \<Rightarrow> attempt" where
  "flakyNet k =
     (if k < 2 then \<lparr>latency = 40, outcome = Rejected (Err ''TypeError'' ''network error'')\<rparr>
      else \<lparr>latency = 120, outcome = Responded 200 (JsonData payloadGood)\<rparr>)"

definition downNet :: "nat \<Rightarrow> attempt" where
  "downNet k = \<lparr>latency = 40, outcome = Rejected (Err ''TypeError'' ''network error'')\<rparr>"

definition http500Net :: "nat \<Rightarrow> attempt" where
  "http500Net k = \<lparr>latency = 80, outcome = Responded 500 (JsonData (JObj []))\<rparr>"


section \<open>Movers hook and screen (useStockData, TopLoserScreen)\<close>

record UseStockDataState =
  data :: "json list"
  loading :: bool
  refreshing :: bool
  error :: "string option"


text \<open>
  \<open>fetchData\<close> of the hook; \<open>fetched\<close> is what awaiting \<open>fetchFunctionRef.current()\<close> gave:
  the list it resolved with or the value it threw.
\<close>

definition fetchData :: "thrown + json list \<Rightarrow> string \<Rightarrow> UseStockDataState \<Rightarrow> UseStockDataState" where
  "fetchData fetched emptyStateMessage st =
     (case fetched of
        Inr d \<Rightarrow>
          (st\<lparr>error := None\<rparr>)
            \<lparr>data := d, loading := False, refreshing := False,
             error := (if length d = 0 then Some emptyStateMessage else None)\<rparr>
      | Inl (Err nm msg) \<Rightarrow>
          (st\<lparr>error := None\<rparr>)
            \<lparr>data := [], loading := False, refreshing := False, error := Some msg\<rparr>
      | Inl NonError \<Rightarrow>
          (st\<lparr>error := None\<rparr>)
            \<lparr>data := [], loading := False, refreshing := False,
             error := Some ''Failed to load data. Please try again.''\<rparr>)"

text \<open>\<open>useTopLosers\<close> followed by the screen's \<open>fetchData()\<close> on mount.\<close>

definition topLosersFetch :: "(nat \<Rightarrow> attempt) \<Rightarrow> UseStockDataState \<Rightarrow> UseStockDataState" where
  "topLosersFetch net st =
     fetchData (snd (getTopLosers net)) ''No top losers available at the moment'' st"

text \<open>
  What \<open>renderContent\<close> returns: one of the screen's components. The grid gets
  \<open>listData\<close>, the rows of two with a \<open>null\<close> filling the last row of an odd list.
\<close>

datatype view = LoadingState | ErrorState string | EmptyState | StockGrid "json option list"

definition listData :: "json list \<Rightarrow> json option list" where
  "listData d = map Some d @ (if odd (length d) then [None] else [])"

definition renderContent :: "UseStockDataState \<Rightarrow> view" where
  "renderContent st =
     (if loading st then LoadingState
      else case error st of
        Some m \<Rightarrow>
          if m \<noteq> [] then ErrorState m
          else if length (data st) = 0 then EmptyState
          else StockGrid (listData (data st))
      | None \<Rightarrow>
          if length (data st) = 0 then EmptyState
          else StockGrid (listData (data st)))"

text \<open>A network that answers with empty movers lists.\<close>

definition emptyNet :: "nat \<Rightarrow> attempt" where
  "emptyNet k =
     \<lparr>latency = 80,
      outcome = Responded 200 (JsonData (JObj [(''top_gainers'', JArr []), (''top_losers'', JArr [])]))\<rparr>"

section \<open>Stock overview cache (StockDetailsScreen)\<close>

text \<open>
  The module-level \<open>cache\<close> map, and the log of the symbols whose overview was requested
  from the network, in order.
\<close>

record overview_state =
  cache :: "string \<rightharpoonup> json"
  fetches :: "string list"

text \<open>
  \<open>fetchData\<close> of the details screen (the second function of that name in the sources),
  given what the network does with its fetch. Every failure is rethrown as an \<open>Error\<close>
  whose message starts with \<open>Failed to fetch stock overview\<close>.
\<close>

definition fetchData_overview :: "settled \<Rightarrow> thrown + json" where
  "fetchData_overview s =
     (case (case s of
              Rejected e \<Rightarrow> Inl e
            | Responded status b \<Rightarrow>
                if \<not> ok status
                then Inl (Err ''Error'' (''HTTP error! status: '' @ showNat status))
                else case b of
                  JsonRejects e \<Rightarrow> Inl e
                | JsonData d \<Rightarrow>
                    if d = JNull then Inl TypeError_nullProperty
                    else if truthy (getProp d ''Error Message'') \<or> truthy (getProp d ''Note'')
                    then throwNewError (if truthy (getProp d ''Error Message'')
                                        then getProp d ''Error Message'' else getProp d ''Note'')
                    else Inr d) of
        Inl (Err nm msg) \<Rightarrow> Inl (Err ''Error'' (''Failed to fetch stock overview: '' @ msg))
      | Inl NonError \<Rightarrow> Inl (Err ''Error'' ''Failed to fetch stock overview: Unknown error'')
      | Inr d \<Rightarrow> Inr d)"

text \<open>
  \<open>stockApiService.fetchStockOverview\<close>. The network is a function of the symbol asked
  for and of the number of fetches made before.
\<close>

definition fetchStockOverview ::
  "(string \<Rightarrow> nat \<Rightarrow> settled) \<Rightarrow> string \<Rightarrow> overview_state
     \<Rightarrow> (thrown + json) \<times> overview_state" where
  "fetchStockOverview net symbol st =
     (let cacheKey = ''overview_'' @ symbol in
      case cache st cacheKey of
        Some cached \<Rightarrow> (Inr cached, st)
      | None \<Rightarrow>
          (case fetchData_overview (net symbol (length (fetches st))) of
             Inl e \<Rightarrow> (Inl e, st\<lparr>fetches := fetches st @ [symbol]\<rparr>)
           | Inr d \<Rightarrow>
               (Inr d, st\<lparr>fetches := fetches st @ [symbol],
                          cache := (cache st)(cacheKey \<mapsto> d)\<rparr>)))"

text \<open>A session that starts with an empty cache, and two networks.\<close>

definition coldState :: overview_state where
  "coldState = \<lparr>cache = Map.empty, fetches = []\<rparr>"

definition overviewNet :: "string \<Rightarrow> nat \<Rightarrow> settled" where
  "overviewNet symbol n = Responded 200 (JsonData (JObj [(''Symbol'', JStr symbol)]))"

definition recoveringNet :: "string \<Rightarrow> nat \<Rightarrow> settled" where
  "recoveringNet symbol n =
     (if n = 0 then Responded 503 (JsonData (JObj []))
      else Responded 200 (JsonData (JObj [(''Symbol'', JStr symbol)])))"

section \<open>Hybrid search (ExploreScreen)\<close>

text \<open>\<open>String.prototype.toLowerCase\<close> on ASCII text.\<close>

definition lowerChar :: "char \<Rightarrow> char" where
  "lowerChar c =
     (case map_of (zip ''ABCDEFGHIJKLMNOPQRSTUVWXYZ'' ''abcdefghijklmnopqrstuvwxyz'') c of
        Some l \<Rightarrow> l
      | None \<Rightarrow> c)"

definition toLowerCase :: "string \<Rightarrow> string" where
  "toLowerCase s = map lowerChar s"

record StockItem =
  ticker :: string
  price :: string

datatype source_tag = gainer | loser | search

text \<open>
  \<open>HybridSearchResult\<close>. The fields hold JavaScript values, since the remote entries take
  theirs from the provider's JSON as they come; the price of a remote entry is
  \<open>undefined\<close>. (The fields \<open>name\<close> and \<open>price\<close> carry a prime: the plain names are fields
  of the records above.)
\<close>

record HybridSearchResult =
  symbol :: "json option"
  name' :: "json option"
  price' :: "json option"
  source :: source_tag

text \<open>The state of the screen that the search reads and writes.\<close>

record explore_state =
  topGainers :: "StockItem list"
  topLosers :: "StockItem list"
  searchResults :: "HybridSearchResult list"
  searchLoading :: bool
  searches :: "string list"

text \<open>
  The inner \<open>try\<close> of \<open>fetchSearchResults\<close>: the entries made from \<open>data.bestMatches\<close>, and
  the empty list when the fetch or \<open>json()\<close> is rejected or when reading the answer throws
  (a \<open>null\<close> answer, a \<open>bestMatches\<close> that is truthy but no array, a \<open>null\<close> entry).
\<close>

definition apiSearch :: "settled \<Rightarrow> HybridSearchResult list" where
  "apiSearch remote =
     (case remote of
        Rejected e \<Rightarrow> []
      | Responded status b \<Rightarrow>
          (case b of
             JsonRejects e \<Rightarrow> []
           | JsonData d \<Rightarrow>
               if d = JNull then []
               else if \<not> truthy (getProp d ''bestMatches'') then []
               else case getProp d ''bestMatches'' of
                 Some (JArr items) \<Rightarrow>
                   if JNull \<in> set items then []
                   else map (\<lambda>item. \<lparr>symbol = getProp item ''1. symbol'',
                                      name' = getProp item ''2. name'',
                                      price' = None, source = search\<rparr>) items
               | _ \<Rightarrow> []))"

text \<open>
  \<open>fetchSearchResults\<close> as one render creates it: \<open>heldGainers\<close> and \<open>heldLosers\<close> are the
  values of \<open>topGainers\<close> and \<open>topLosers\<close> in that render, which the closure holds;
  \<open>remote\<close> is the answer of the symbol search. The state setters act on the current state.
\<close>

definition fetchSearchResults ::
  "StockItem list \<Rightarrow> StockItem list \<Rightarrow> settled \<Rightarrow> string \<Rightarrow> explore_state \<Rightarrow> explore_state" where
  "fetchSearchResults heldGainers heldLosers remote query st =
     (let lowerQuery = toLowerCase query;
          gainerMatches =
            map (\<lambda>item. \<lparr>symbol = Some (JStr (ticker item)), name' = Some (JStr []),
                          price' = Some (JStr (price item)), source = gainer\<rparr>)
              (filter (\<lambda>item. includesStr (toLowerCase (ticker item)) lowerQuery) heldGainers);
          loserMatches =
            map (\<lambda>item. \<lparr>symbol = Some (JStr (ticker item)), name' = Some (JStr []),
                          price' = Some (JStr (price item)), source = loser\<rparr>)
              (filter (\<lambda>item. includesStr (toLowerCase (ticker item)) lowerQuery) heldLosers);
          apiResults = apiSearch remote;
          combined = gainerMatches @ loserMatches;
          seen = fold (\<lambda>item s. insert (symbol item) s) combined {};
          filteredApiResults = filter (\<lambda>item. symbol item \<notin> seen) apiResults
      in st\<lparr>searchResults := combined @ filteredApiResults, searchLoading := False,
            searches := searches st @ [query]\<rparr>)"

text \<open>The state of the first render: the initial values given to \<open>useState\<close>.\<close>

definition firstRender :: explore_state where
  "firstRender =
     \<lparr>topGainers = [], topLosers = [], searchResults = [], searchLoading = False, searches = []\<rparr>"

text \<open>\<open>setTopGainers(gainers); setTopLosers(losers)\<close> at the end of a successful load.\<close>

definition moversLoaded :: "StockItem list \<Rightarrow> StockItem list \<Rightarrow> explore_state \<Rightarrow> explore_state" where
  "moversLoaded gainers losers st = st\<lparr>topGainers := gainers, topLosers := losers\<rparr>"

text \<open>
  The callback that \<open>debouncedSearch\<close> runs once the typing has paused, with the
  \<open>fetchSearchResults\<close> it calls given as \<open>fetchResults\<close>.
\<close>

definition searchCallback ::
  "(string \<Rightarrow> explore_state \<Rightarrow> explore_state) \<Rightarrow> string \<Rightarrow> explore_state \<Rightarrow> explore_state" where
  "searchCallback fetchResults query st =
     (if length (trim query) > 0 then fetchResults (trim query) st
      else st\<lparr>searchResults := []\<rparr>)"

text \<open>
  \<open>debouncedSearch\<close> is made by \<open>useMemo\<close> with an empty dependency list: the callback
  made in the first render serves every later render. The \<open>fetchSearchResults\<close> it names
  is the one of the first render, whose closure holds that render's \<open>topGainers\<close> and
  \<open>topLosers\<close>.
\<close>

definition debouncedSearch :: "settled \<Rightarrow> string \<Rightarrow> explore_state \<Rightarrow> explore_state" where
  "debouncedSearch remote =
     searchCallback (fetchSearchResults (topGainers firstRender) (topLosers firstRender) remote)"

text \<open>
  The words of the claim: a ticker contains the query without regard to case, and the
  entry a local match is shown as.
\<close>

definition containsIgnoreCase :: "string \<Rightarrow> string \<Rightarrow> bool" where
  "containsIgnoreCase s q = sublist (toLowerCase q) (toLowerCase s)"

definition localEntry :: "source_tag \<Rightarrow> StockItem \<Rightarrow> HybridSearchResult" where
  "localEntry tag item =
     \<lparr>symbol = Some (JStr (ticker item)), name' = Some (JStr []),
      price' = Some (JStr (price item)), source = tag\<rparr>"

definition localMatches :: "source_tag \<Rightarrow> string \<Rightarrow> StockItem list \<Rightarrow> HybridSearchResult list" where
  "localMatches tag q items =
     map (localEntry tag) (filter (\<lambda>item. containsIgnoreCase (ticker item) q) items)"

text \<open>Lists and an answer of the symbol search used to evaluate the search.\<close>

definition someGainers :: "StockItem list" where
  "someGainers = [\<lparr>ticker = ''AAPL'', price = ''190.00''\<rparr>, \<lparr>ticker = ''MSFT'', price = ''410.10''\<rparr>]"

definition someLosers :: "StockItem list" where
  "someLosers = [\<lparr>ticker = ''BAA'', price = ''3.20''\<rparr>]"

definition searchAnswer :: settled where
  "searchAnswer =
     Responded 200 (JsonData (JObj [(''bestMatches'', JArr
       [JObj [(''1. symbol'', JStr ''AAPL''), (''2. name'', JStr ''Apple Inc'')],
        JObj [(''1. symbol'', JStr ''AA''), (''2. name'', JStr ''Alcoa Corp'')]])]))"

section \<open>Watchlist store: proofs\<close>

text \<open>Loading and saving leave the modal's copy equal to the stored collection.\<close>

lemma loadWatchlists_sync: "watchlists (loadWatchlists sy st) = persisted (loadWatchlists sy st)"
  by (simp add: loadWatchlists_def persisted_def)

lemma saveWatchlists_sync: "watchlists (saveWatchlists ws st) = persisted (saveWatchlists ws st)"
  by (simp add: saveWatchlists_def persisted_def)

lemma list_ex_name_iff: "list_ex (\<lambda>wl. name wl = n) ws \<longleftrightarrow> n \<in> set (map name ws)"
  by (induction ws) auto

lemma trimStart_fix: "s \<noteq> [] \<Longrightarrow> \<not> isWhiteSpace (hd s) \<Longrightarrow> trimStart s = s"
  by (cases s) (simp_all add: trimStart_def)

lemma trimStart_hd: "trimStart s \<noteq> [] \<Longrightarrow> \<not> isWhiteSpace (hd (trimStart s))"
  unfolding trimStart_def by (rule hd_dropWhile)

lemma trimStart_rev_hd:
  assumes "u \<noteq> []" "\<not> isWhiteSpace (hd u)"
  shows "rev (trimStart (rev u)) \<noteq> [] \<and> hd (rev (trimStart (rev u))) = hd u"
  by (metis Nil_is_rev_conv assms(1,2) dropWhile_eq_Nil_conv dropWhile_last
    hd_in_set hd_rev last_rev set_rev trimStart_def)

lemma trim_idem: "trim (trim s) = trim s"
proof (cases "trimStart s = []")
  case True
  moreover have "trimStart [] = []" by (simp add: trimStart_def)
  ultimately show ?thesis by (simp add: trim_def)
next
  case False
  let ?u = "trimStart s"
  let ?v = "rev (trimStart (rev ?u))"
  from False have nws: "\<not> isWhiteSpace (hd ?u)" by (rule trimStart_hd)
  from trimStart_rev_hd [OF False nws] have "?v \<noteq> []" "\<not> isWhiteSpace (hd ?v)"
    using nws by simp_all
  then have "trimStart ?v = ?v" by (rule trimStart_fix)
  moreover have "trimStart (rev ?v) = rev ?v"
    by (simp add: trimStart_def dropWhile_idem)
  ultimately show ?thesis by (simp add: trim_def)
qed

lemma toggleIn_name: "name (toggleIn sy nm wl) = name wl"
  by (simp add: toggleIn_def Let_def)

lemma toggleIn_member:
  "name wl = nm \<Longrightarrow> sy \<in> set (stocks (toggleIn sy nm wl)) \<longleftrightarrow> sy \<notin> set (stocks wl)"
  by (simp add: toggleIn_def Let_def)

lemma toggleIn_count: "name wl = nm \<Longrightarrow> count_list (stocks (toggleIn sy nm wl)) sy \<le> 1"
  by (simp add: toggleIn_def Let_def count_list_0_iff)

lemma toggleIn_distinct: "distinct (stocks wl) \<Longrightarrow> distinct (stocks (toggleIn sy nm wl))"
  by (simp add: toggleIn_def Let_def)

lemma toggleIn_twice_member:
  "s \<in> set (stocks (toggleIn sy nm (toggleIn sy nm wl))) \<longleftrightarrow> s \<in> set (stocks wl)"
  by (auto simp: toggleIn_def Let_def)

text \<open>
  Claim C8, as the code has it. \<open>create n\<close> works on the trimmed name \<open>trim n\<close>, the name
  it compares and stores. When the modal's copy mirrors the persisted collection (as after \<open>loadWatchlists\<close>
  and after every save): a blank \<open>n\<close>, or one whose name already exists, leaves the stored
  item untouched; any other \<open>n\<close> appends \<open>\<lparr>name = trim n, stocks = []\<rparr>\<close> at the end; names
  that were unique stay unique; a second \<open>create n\<close> changes nothing more; the copy still
  mirrors the store. Stored names are then always trimmed, and on such a collection an
  \<open>n\<close> that is literally one of the stored names is a no-op as well.
\<close>

theorem create_watchlist:
  assumes sync: "watchlists st = persisted st"
  shows "(trim n = [] \<or> trim n \<in> set (map name (persisted st))
            \<longrightarrow> storage (create n st) = storage st)
       \<and> (trim n \<noteq> [] \<and> trim n \<notin> set (map name (persisted st))
            \<longrightarrow> persisted (create n st) = persisted st @ [\<lparr>name = trim n, stocks = []\<rparr>])
       \<and> (distinct (map name (persisted st)) \<longrightarrow> distinct (map name (persisted (create n st))))
       \<and> persisted (create n (create n st)) = persisted (create n st)
       \<and> watchlists (create n st) = persisted (create n st)
       \<and> ((\<forall>wl \<in> set (persisted st). trim (name wl) = name wl)
            \<longrightarrow> (\<forall>wl \<in> set (persisted (create n st)). trim (name wl) = name wl)
              \<and> (n \<in> set (map name (persisted st)) \<longrightarrow> storage (create n st) = storage st))"
proof -
  have a: "trim n = [] \<or> trim n \<in> set (map name (persisted st))
            \<longrightarrow> storage (create n st) = storage st"
    using sync by (auto simp: create_def handleAddWatchlist_def list_ex_name_iff)
  have b: "trim n \<noteq> [] \<and> trim n \<notin> set (map name (persisted st))
            \<longrightarrow> persisted (create n st) = persisted st @ [\<lparr>name = trim n, stocks = []\<rparr>]"
    using sync
    by (simp add: create_def handleAddWatchlist_def list_ex_name_iff saveWatchlists_def persisted_def)
  have c: "distinct (map name (persisted st)) \<longrightarrow> distinct (map name (persisted (create n st)))"
    using sync
    by (auto simp: create_def handleAddWatchlist_def list_ex_name_iff saveWatchlists_def persisted_def)
  have d: "persisted (create n (create n st)) = persisted (create n st)"
    by (auto simp: create_def handleAddWatchlist_def list_ex_name_iff saveWatchlists_def persisted_def)
  have e: "watchlists (create n st) = persisted (create n st)"
    using sync
    by (auto simp: create_def handleAddWatchlist_def list_ex_name_iff saveWatchlists_def persisted_def)
  have f: "(\<forall>wl \<in> set (persisted st). trim (name wl) = name wl)
            \<longrightarrow> (\<forall>wl \<in> set (persisted (create n st)). trim (name wl) = name wl)"
    using sync
    by (auto simp: create_def handleAddWatchlist_def list_ex_name_iff saveWatchlists_def
        persisted_def trim_idem)
  have g: "(\<forall>wl \<in> set (persisted st). trim (name wl) = name wl)
            \<longrightarrow> n \<in> set (map name (persisted st)) \<longrightarrow> storage (create n st) = storage st"
  proof (intro impI)
    assume inv: "\<forall>wl \<in> set (persisted st). trim (name wl) = name wl"
      and mem: "n \<in> set (map name (persisted st))"
    from inv mem have "trim n = n" by auto
    with mem a show "storage (create n st) = storage st" by simp
  qed
  from a b c d e f g show ?thesis by blast
qed

theorem create_watchlist_witness:
  "storage (create ''  '' st0) = storage st0
   \<and> storage (create '' Tech '' st0) = storage st0
   \<and> storage (create ''Tech'' st0) = storage st0
   \<and> persisted (create ''Banks'' st0) =
        [\<lparr>name = ''Tech'', stocks = [''MSFT'']\<rparr>, \<lparr>name = ''Energy'', stocks = []\<rparr>,
         \<lparr>name = ''Banks'', stocks = []\<rparr>]
   \<and> distinct (map name (persisted (create ''Banks'' st0)))
   \<and> persisted (create ''Banks'' (create ''Banks'' st0)) = persisted (create ''Banks'' st0)"
proof -
  have sync: "watchlists st0 = persisted st0" by (simp add: st0_def persisted_def)
  have t: "trim ''  '' = []" "trim '' Tech '' = ''Tech''" "trim ''Tech'' = ''Tech''"
    "trim ''Banks'' = ''Banks''"
    by (simp_all add: trim_def trimStart_def isWhiteSpace_def)
  have p: "persisted st0 = [\<lparr>name = ''Tech'', stocks = [''MSFT'']\<rparr>, \<lparr>name = ''Energy'', stocks = []\<rparr>]"
    by (simp add: st0_def persisted_def)
  have n: "map name (persisted st0) = [''Tech'', ''Energy'']"
    by (simp add: p)
  have 1: "storage (create ''  '' st0) = storage st0"
    using create_watchlist [OF sync, of "''  ''"] t(1) by blast
  have 2: "storage (create '' Tech '' st0) = storage st0"
    using create_watchlist [OF sync, of "'' Tech ''"] by (simp add: t(2) n)
  have 3: "storage (create ''Tech'' st0) = storage st0"
    using create_watchlist [OF sync, of "''Tech''"] by (simp add: t(3) n)
  have b: "trim ''Banks'' \<noteq> [] \<and> trim ''Banks'' \<notin> set (map name (persisted st0))"
    by (simp add: t(4) n)
  have d: "distinct (map name (persisted st0))"
    by (simp add: n)
  from create_watchlist [OF sync, of "''Banks''"] b
  have 4: "persisted (create ''Banks'' st0) = persisted st0 @ [\<lparr>name = trim ''Banks'', stocks = []\<rparr>]"
    by blast
  from create_watchlist [OF sync, of "''Banks''"] d
  have 5: "distinct (map name (persisted (create ''Banks'' st0)))"
    by blast
  from create_watchlist [OF sync, of "''Banks''"]
  have 6: "persisted (create ''Banks'' (create ''Banks'' st0)) = persisted (create ''Banks'' st0)"
    by blast
  from 1 2 3 4 5 6 show ?thesis by (simp add: p t(4))
qed

text \<open>
  The claim as written, with the name \<open>n\<close> itself, fails: \<open>'' Tech ''\<close> is not blank and no
  stored watchlist has that name, yet nothing is appended, because \<open>Tech\<close> exists; and
  \<open>'' Banks ''\<close> appends a watchlist named \<open>Banks\<close>, not one named \<open>'' Banks ''\<close>.
\<close>

theorem create_literal_name_counterexample:
  "trim '' Tech '' \<noteq> []
   \<and> '' Tech '' \<notin> set (map name (persisted st0))
   \<and> persisted (create '' Tech '' st0) = persisted st0
   \<and> persisted (create '' Banks '' st0) = persisted st0 @ [\<lparr>name = ''Banks'', stocks = []\<rparr>]
   \<and> persisted (create '' Banks '' st0) \<noteq> persisted st0 @ [\<lparr>name = '' Banks '', stocks = []\<rparr>]"
proof -
  have t: "trim '' Tech '' = ''Tech''" "trim '' Banks '' = ''Banks''"
    by (simp_all add: trim_def trimStart_def isWhiteSpace_def)
  have p: "persisted st0 = [\<lparr>name = ''Tech'', stocks = [''MSFT'']\<rparr>, \<lparr>name = ''Energy'', stocks = []\<rparr>]"
    "watchlists st0 = [\<lparr>name = ''Tech'', stocks = [''MSFT'']\<rparr>, \<lparr>name = ''Energy'', stocks = []\<rparr>]"
    by (simp_all add: st0_def persisted_def)
  have a: "create '' Tech '' st0 = st0\<lparr>newName := '' Tech ''\<rparr>"
    by (simp add: create_def handleAddWatchlist_def t p)
  have b: "persisted (create '' Banks '' st0) = watchlists st0 @ [\<lparr>name = ''Banks'', stocks = []\<rparr>]"
    by (simp add: create_def handleAddWatchlist_def saveWatchlists_def persisted_def t p)
  from a have c: "persisted (create '' Tech '' st0) = persisted st0"
    by (simp add: persisted_def)
  from b p have d: "persisted (create '' Banks '' st0) = persisted st0 @ [\<lparr>name = ''Banks'', stocks = []\<rparr>]"
    by simp
  from t c d show ?thesis by (simp add: p)
qed

text \<open>
  Claim C9. \<open>handleToggle\<close> persists the collection in which every watchlist named
  \<open>nm\<close> has been toggled and every other one is untouched. In a toggled watchlist the
  symbol is appended when it was absent and every occurrence is removed when it was
  present; toggling twice restores the symbol's membership; after a toggle the symbol
  occurs at most once, and a stock list without repetitions stays without repetitions.
\<close>

theorem handleToggle_membership:
  "storage (handleToggle sy nm st) = Some (watchlists (handleToggle sy nm st))
   \<and> watchlists (handleToggle sy nm st) = map (toggleIn sy nm) (watchlists st)
   \<and> (\<forall>wl \<in> set (watchlists st).
        name (toggleIn sy nm wl) = name wl
        \<and> (name wl \<noteq> nm \<longrightarrow> toggleIn sy nm wl = wl)
        \<and> (name wl = nm \<and> sy \<notin> set (stocks wl)
              \<longrightarrow> stocks (toggleIn sy nm wl) = stocks wl @ [sy])
        \<and> (name wl = nm \<and> sy \<in> set (stocks wl)
              \<longrightarrow> stocks (toggleIn sy nm wl) = filter (\<lambda>s. s \<noteq> sy) (stocks wl)
                  \<and> sy \<notin> set (stocks (toggleIn sy nm wl)))
        \<and> (sy \<in> set (stocks (toggleIn sy nm (toggleIn sy nm wl))) \<longleftrightarrow> sy \<in> set (stocks wl))
        \<and> (name wl = nm \<longrightarrow> count_list (stocks (toggleIn sy nm wl)) sy \<le> 1)
        \<and> (distinct (stocks wl) \<longrightarrow> distinct (stocks (toggleIn sy nm wl))))
   \<and> watchlists (handleToggle sy nm (handleToggle sy nm st))
        = map (\<lambda>wl. toggleIn sy nm (toggleIn sy nm wl)) (watchlists st)"
proof -
  have a: "storage (handleToggle sy nm st) = Some (watchlists (handleToggle sy nm st))"
    by (simp add: handleToggle_def saveWatchlists_def)
  have b: "watchlists (handleToggle sy nm st) = map (toggleIn sy nm) (watchlists st)" for st
    by (simp add: handleToggle_def saveWatchlists_def)
  have c: "watchlists (handleToggle sy nm (handleToggle sy nm st))
        = map (\<lambda>wl. toggleIn sy nm (toggleIn sy nm wl)) (watchlists st)"
    by (simp add: b)
  have d: "name wl = nm \<and> sy \<in> set (stocks wl)
              \<longrightarrow> stocks (toggleIn sy nm wl) = filter (\<lambda>s. s \<noteq> sy) (stocks wl)
                  \<and> sy \<notin> set (stocks (toggleIn sy nm wl))" for wl
    by (simp add: toggleIn_def Let_def)
  have e: "name wl = nm \<and> sy \<notin> set (stocks wl)
              \<longrightarrow> stocks (toggleIn sy nm wl) = stocks wl @ [sy]" for wl
    by (simp add: toggleIn_def Let_def)
  have f: "name wl \<noteq> nm \<longrightarrow> toggleIn sy nm wl = wl" for wl
    by (simp add: toggleIn_def)
  show ?thesis
    using a b [of st] c d e f toggleIn_name toggleIn_twice_member toggleIn_count toggleIn_distinct
    by (intro conjI ballI) simp_all
qed

theorem handleToggle_membership_witness:
  "watchlists (handleToggle ''AAPL'' ''Tech'' st0) =
     [\<lparr>name = ''Tech'', stocks = [''MSFT'', ''AAPL'']\<rparr>, \<lparr>name = ''Energy'', stocks = []\<rparr>]
   \<and> watchlists (handleToggle ''MSFT'' ''Tech'' st0) =
     [\<lparr>name = ''Tech'', stocks = []\<rparr>, \<lparr>name = ''Energy'', stocks = []\<rparr>]
   \<and> watchlists (handleToggle ''MSFT'' ''Tech'' (handleToggle ''MSFT'' ''Tech'' st0)) =
     [\<lparr>name = ''Tech'', stocks = [''MSFT'']\<rparr>, \<lparr>name = ''Energy'', stocks = []\<rparr>]
   \<and> watchlists (handleToggle ''MSFT'' ''Banks'' st0) = watchlists st0"
  using handleToggle_membership [of "''AAPL''" "''Tech''" st0]
    handleToggle_membership [of "''MSFT''" "''Tech''" st0]
    handleToggle_membership [of "''MSFT''" "''Banks''" st0]
  by (simp add: st0_def toggleIn_def)

section \<open>Response validator: proofs\<close>

lemma printable_simps:
  "printable JNull" "printable (JBool b)" "printable (JNum r)" "printable (JStr s)"
  "printable (JObj kvs) \<longleftrightarrow> map_of kvs ''toString'' = None"
  by (simp_all add: printable_def)

lemma sequence_Inr_iff:
  "(\<exists>xs. sequence rs = Inr xs) \<longleftrightarrow> (\<forall>r \<in> set rs. \<exists>x. r = Inr x)"
  by (induction rs rule: sequence.induct) (auto split: sum.splits)

lemma printable_JArr: "printable (JArr xs) \<longleftrightarrow> list_all printable xs"
proof -
  let ?rs = "map (\<lambda>x. if x = JNull then Inr [] else ToString x) xs"
  have "printable (JArr xs) \<longleftrightarrow> (\<exists>ss. sequence ?rs = Inr ss)"
    by (auto simp: printable_def split: sum.splits)
  also have "\<dots> \<longleftrightarrow> (\<forall>r \<in> set ?rs. \<exists>s. r = Inr s)"
    by (rule sequence_Inr_iff)
  also have "\<dots> \<longleftrightarrow> (\<forall>x \<in> set xs. printable x)"
  proof (intro iffI ballI)
    fix x assume a: "\<forall>r \<in> set ?rs. \<exists>s. r = Inr s" and x: "x \<in> set xs"
    show "printable x"
    proof (cases "x = JNull")
      case True then show ?thesis by (simp add: printable_def)
    next
      case False
      with x have "ToString x \<in> set ?rs" by force
      with a obtain s where "ToString x = Inr s" by blast
      then show ?thesis by (simp add: printable_def)
    qed
  next
    fix r assume a: "\<forall>x \<in> set xs. printable x" and r: "r \<in> set ?rs"
    from r obtain x where "x \<in> set xs" "r = (if x = JNull then Inr [] else ToString x)"
      by auto
    with a show "\<exists>s. r = Inr s"
      by (cases "ToString x") (auto simp: printable_def)
  qed
  finally show ?thesis by (simp add: list_all_iff)
qed

lemma filterE_filter:
  "(\<And>x. x \<in> set xs \<Longrightarrow> f x = Inr (p x)) \<Longrightarrow> filterE f xs = Inr (filter p xs)"
  by (induction xs) auto

lemma parseFloat_printable:
  "(case v of None \<Rightarrow> True | Some x \<Rightarrow> printable x) \<Longrightarrow> \<exists>p. parseFloat v = Inr p"
  by (auto simp: parseFloat_def printable_def split: option.splits sum.splits)

lemma object_test:
  "(\<not> truthy (Some item) \<or> typeof (Some item) \<noteq> ''object'')
   \<longleftrightarrow> \<not> (item \<noteq> JNull \<and> typeof (Some item) = ''object'')"
  by (cases item) simp_all

lemma trimStart_Nil: "trimStart [] = []"
  by (simp add: trimStart_def)

lemma trim_Nil: "trim [] = []"
  by (simp add: trim_def trimStart_Nil)

lemma ticker_test:
  "(\<not> truthy t \<or> typeof t \<noteq> ''string'' \<or> (case t of Some (JStr s) \<Rightarrow> trim s = [] | _ \<Rightarrow> False))
   \<longleftrightarrow> \<not> (case t of Some (JStr s) \<Rightarrow> trim s \<noteq> [] | _ \<Rightarrow> False)"
proof (cases t)
  case None then show ?thesis by simp
next
  case (Some v) then show ?thesis by (cases v) (auto simp: trim_Nil)
qed

lemma stockItemOk_accepted:
  assumes "fieldsPrintable item"
  shows "stockItemOk item = Inr (acceptedEntry item)"
proof -
  from assms obtain p1 p2 p3 where
    p: "parseFloat (getProp item ''price'') = Inr p1"
       "parseFloat (getProp item ''change_amount'') = Inr p2"
       "parseFloat (getProp item ''change_percentage'') = Inr p3"
    using parseFloat_printable [of "getProp item ''price''"]
      parseFloat_printable [of "getProp item ''change_amount''"]
      parseFloat_printable [of "getProp item ''change_percentage''"]
    unfolding fieldsPrintable_def by auto
  have n: "isNaN q \<longleftrightarrow> \<not> (q = Decimal \<or> q = Infinity)" for q
    by (cases q) (simp_all add: isNaN_def)
  show ?thesis
    unfolding stockItemOk_def acceptedEntry_def parsesAsNumber_def object_test ticker_test
    by (simp add: p n)
qed

lemma validateStockData_array:
  "list_all fieldsPrintable xs \<Longrightarrow> validateStockData (Some (JArr xs)) = Inr (filter acceptedEntry xs)"
proof -
  assume "list_all fieldsPrintable xs"
  then have "\<And>x. x \<in> set xs \<Longrightarrow> stockItemOk x = Inr (acceptedEntry x)"
    by (simp add: list_all_iff stockItemOk_accepted)
  then show ?thesis
    by (simp add: validateStockData_def filterE_filter)
qed

lemma validateStockData_other:
  "\<forall>xs. d \<noteq> Some (JArr xs) \<Longrightarrow> validateStockData d = Inr []"
  by (auto simp: validateStockData_def split: option.splits json.splits)


lemma trim_ex: "trim ''A'' = ''A''" "trim ''AAPL'' = ''AAPL''" "trim '' '' = []"
  by (simp_all add: trim_def trimStart_def isWhiteSpace_def)

lemma pf_ex:
  "parseFloat_string ''1'' = Decimal" "parseFloat_string ''Infinity'' = Infinity"
  "parseFloat_string ''190.00'' = Decimal" "parseFloat_string ''1.5'' = Decimal"
  "parseFloat_string ''0.79%'' = Decimal" "parseFloat_string ''0'' = Decimal"
  "parseFloat_string ''N/A'' = NaN"
  by (simp_all add: parseFloat_string_def dropSign_def trimStart_def isWhiteSpace_def isDigit_def)

text \<open>
  Claim C6, as the code has it. On an array whose entries have printable fields (so that
  \<open>parseFloat\<close> cannot throw), \<open>validateStockData\<close> returns exactly the entries that are
  objects with a string ticker that is not blank, a truthy price that parses as a number,
  and change fields that, when present, parse as a number; the other entries are removed
  and the order is kept. On anything but an array it returns the empty list.
\<close>

theorem validateStockData_kept:
  "(list_all fieldsPrintable xs
      \<longrightarrow> validateStockData (Some (JArr xs)) = Inr (filter acceptedEntry xs))
   \<and> ((\<forall>xs. d \<noteq> Some (JArr xs)) \<longrightarrow> validateStockData d = Inr [])"
  using validateStockData_array [of xs] validateStockData_other [of d] by blast

theorem validateStockData_kept_witness:
  "validateStockData (Some (JArr [entryGood, JNull, JStr ''x'', entryBlankTicker, entryInfinity]))
     = Inr [entryGood, entryInfinity]
   \<and> validateStockData (Some (JStr ''AAPL'')) = Inr []"
proof -
  have a: "list_all fieldsPrintable [entryGood, JNull, JStr ''x'', entryBlankTicker, entryInfinity]"
    by (simp add: fieldsPrintable_def printable_def entryGood_def entryBlankTicker_def
        entryInfinity_def)
  have b: "filter acceptedEntry [entryGood, JNull, JStr ''x'', entryBlankTicker, entryInfinity]
           = [entryGood, entryInfinity]"
    by (simp add: acceptedEntry_def parsesAsNumber_def parseFloat_def entryGood_def
        entryBlankTicker_def entryInfinity_def trim_ex pf_ex)
  show ?thesis
    using validateStockData_kept
      [of "[entryGood, JNull, JStr ''x'', entryBlankTicker, entryInfinity]" "Some (JStr ''AAPL'')"]
      a b
    by simp
qed

text \<open>
  The claim as written fails: an entry whose \<open>change_amount\<close> is \<open>Infinity\<close> is kept though
  it does not parse as a finite number; an entry with a blank ticker and one whose price
  is the number zero are removed though the claim keeps them; and an entry whose price is
  an object with an own \<open>toString\<close> property makes the validation throw.
\<close>

theorem validateStockData_claimed_counterexample:
  "validateStockData (Some (JArr [entryInfinity])) = Inr [entryInfinity]
   \<and> filter claimedEntryOk [entryInfinity] = []
   \<and> validateStockData (Some (JArr [entryBlankTicker])) = Inr []
   \<and> filter claimedEntryOk [entryBlankTicker] = [entryBlankTicker]
   \<and> validateStockData (Some (JArr [entryZeroPrice])) = Inr []
   \<and> filter claimedEntryOk [entryZeroPrice] = [entryZeroPrice]
   \<and> validateStockData (Some (JArr [entryShadowed])) = Inl TypeError_toPrimitive"
  by (simp add: validateStockData_def stockItemOk_def claimedEntryOk_def parsesAsNumber_def
      parsesAsFiniteNumber_def parseFloat_def isNaN_def entryInfinity_def entryBlankTicker_def
      entryZeroPrice_def entryShadowed_def trim_ex pf_ex)




section \<open>Request client: proofs\<close>

lemma makeRequest_timeout:
  "TIMEOUT API_CONFIG \<le> latency (net k)
   \<Longrightarrow> makeRequest net k = ([Fetch], Inl (Err ''Error'' ''Request timeout''))"
  by (subst makeRequest.simps) (simp add: tryRequest_def)

lemma includesStr_sublist: "includesStr s sub \<longleftrightarrow> sublist sub s"
  by (induction s) (auto simp: sublist_Cons_right)

lemma includesStr_set: "includesStr s sub \<Longrightarrow> set sub \<subseteq> set s"
  by (simp add: includesStr_sublist set_mono_sublist)

lemma digitChar_digit: "digitChar n \<in> set ''0123456789''"
  unfolding digitChar_def by (rule nth_mem) simp

lemma showNat_digits: "set (showNat n) \<subseteq> set ''0123456789''"
proof (induction n rule: showNat.induct)
  case (1 n)
  show ?case
  proof (cases "n < 10")
    case True
    then show ?thesis using digitChar_digit [of n] by (subst showNat.simps) simp
  next
    case False
    with 1 have "set (showNat (n div 10)) \<subseteq> set ''0123456789''" by simp
    with False show ?thesis using digitChar_digit [of n] by (subst showNat.simps) simp
  qed
qed

lemma http_message_not_transient:
  "\<not> includesStr (''HTTP error! status: '' @ showNat status) ''network''"
  "\<not> includesStr (''HTTP error! status: '' @ showNat status) ''timeout''"
proof -
  let ?m = "''HTTP error! status: '' @ showNat status"
  have d: "CHR ''n'' \<notin> set ''0123456789''" "CHR ''i'' \<notin> set ''0123456789''"
    by simp_all
  with showNat_digits [of status] have "CHR ''n'' \<notin> set (showNat status)"
    "CHR ''i'' \<notin> set (showNat status)"
    by blast+
  then have "CHR ''n'' \<notin> set ?m" "CHR ''i'' \<notin> set ?m"
    by simp_all
  then show "\<not> includesStr ?m ''network''" "\<not> includesStr ?m ''timeout''"
    using includesStr_set [of ?m "''network''"] includesStr_set [of ?m "''timeout''"]
    by (simp_all del: set_append) blast+
qed

lemma makeRequest_http:
  assumes "latency (net k) < TIMEOUT API_CONFIG" "outcome (net k) = Responded status b" "\<not> ok status"
  shows "makeRequest net k = ([Fetch], Inl (Err ''Error'' (''HTTP error! status: '' @ showNat status)))"
  using assms http_message_not_transient [of status]
  by (subst makeRequest.simps) (simp add: tryRequest_def)

lemma makeRequest_success:
  "tryRequest (net k) = Inr d \<Longrightarrow> makeRequest net k = ([Fetch], Inr d)"
  by (subst makeRequest.simps) simp

lemma makeRequest_retry_step:
  assumes "tryRequest (net k) = Inl e" "transient e" "k < RETRY_ATTEMPTS API_CONFIG"
  shows "makeRequest net k =
           (Fetch # Delay (RETRY_DELAY API_CONFIG * (k + 1)) # fst (makeRequest net (k + 1)),
            snd (makeRequest net (k + 1)))"
  using assms
  by (subst makeRequest.simps) (auto simp: transient_def split: thrown.splits prod.splits)

lemma makeRequest_no_retry:
  assumes "tryRequest (net k) = Inl e" "\<not> transient e \<or> RETRY_ATTEMPTS API_CONFIG \<le> k"
  shows "makeRequest net k =
           ([Fetch], Inl (case e of Err nm msg \<Rightarrow> if nm = ''AbortError'' then Err ''Error'' ''Request timeout'' else e
                          | NonError \<Rightarrow> e))"
  using assms
  by (subst makeRequest.simps) (auto simp: transient_def split: thrown.splits prod.splits)

lemma makeRequest_trace:
  "k \<le> 3 \<Longrightarrow> \<exists>n. k + n \<le> 3 \<and>
     fst (makeRequest net k) = Fetch # concat (map (\<lambda>j. [Delay (j * 1000), Fetch]) [Suc k..<Suc (k + n)])"
proof (induction "3 - k" arbitrary: k)
  case 0
  then have k: "k = 3" by simp
  have "fst (makeRequest net k) = [Fetch]"
    using k by (subst makeRequest.simps) (auto simp: API_CONFIG_def split: sum.splits thrown.splits)
  then show ?case using k by (intro exI [of _ 0]) simp
next
  case (Suc d)
  then have k: "k < 3" by simp
  show ?case
  proof (cases "\<exists>e. tryRequest (net k) = Inl e \<and> transient e")
    case True
    then obtain e where e: "tryRequest (net k) = Inl e" "transient e" by blast
    from Suc have "d = 3 - (k + 1)" "k + 1 \<le> 3" by simp_all
    from Suc.hyps(1) [OF this] obtain n where
      n: "k + 1 + n \<le> 3"
         "fst (makeRequest net (k + 1))
            = Fetch # concat (map (\<lambda>j. [Delay (j * 1000), Fetch]) [Suc (k + 1)..<Suc (k + 1 + n)])"
      by blast
    have "fst (makeRequest net k) = Fetch # Delay ((k + 1) * 1000) # fst (makeRequest net (k + 1))"
      using makeRequest_retry_step [of net k e] e k by (simp add: API_CONFIG_def)
    with n have "fst (makeRequest net k)
        = Fetch # concat (map (\<lambda>j. [Delay (j * 1000), Fetch]) [Suc k..<Suc (k + (n + 1))])"
      by (simp add: upt_conv_Cons)
    with n(1) show ?thesis by (intro exI [of _ "n + 1"]) simp
  next
    case False
    have "fst (makeRequest net k) = [Fetch]"
    proof (cases "tryRequest (net k)")
      case (Inl e)
      with False have "\<not> transient e" by simp
      with Inl show ?thesis using makeRequest_no_retry [of net k e] by simp
    next
      case (Inr d)
      then show ?thesis by (simp add: makeRequest_success)
    qed
    with k show ?thesis by (intro exI [of _ 0]) simp
  qed
qed

lemma showNat_500: "showNat 500 = ''500''"
  by (simp add: showNat.simps [of 500] showNat.simps [of 50] showNat.simps [of 5] digitChar_def)

lemma transient_network_error: "transient (Err ''TypeError'' ''network error'')"
  by (simp add: transient_def)

lemma tryRequest_downNet: "tryRequest (downNet k) = Inl (Err ''TypeError'' ''network error'')"
  by (simp add: tryRequest_def downNet_def API_CONFIG_def)

text \<open>
  Claim C4. Whatever the network does, a request started at retry count 0 issues a first
  fetch and then at most three retries, the \<open>k\<close>-th of them after a delay of \<open>k * 1000\<close>
  milliseconds. A failure classified as transient is retried while fewer than three
  retries were made, and is thrown to the caller after the third. A response with a
  status outside 200..299 fails with the error whose message carries the status code, at
  once: no delay and no further fetch follow.
\<close>

theorem makeRequest_retry:
  "(\<exists>n. n \<le> 3 \<and> fst (makeRequest net 0) = retrySchedule n)
   \<and> (\<forall>k e. k < 3 \<and> tryRequest (net k) = Inl e \<and> transient e
         \<longrightarrow> makeRequest net k =
               (Fetch # Delay ((k + 1) * 1000) # fst (makeRequest net (k + 1)),
                snd (makeRequest net (k + 1))))
   \<and> (\<forall>e. tryRequest (net 3) = Inl e \<and> transient e \<longrightarrow> makeRequest net 3 = ([Fetch], Inl e))
   \<and> (\<forall>k status b. latency (net k) < 10000 \<and> outcome (net k) = Responded status b \<and> \<not> ok status
         \<longrightarrow> makeRequest net k =
               ([Fetch], Inl (Err ''Error'' (''HTTP error! status: '' @ showNat status))))"
proof (intro conjI allI impI)
  from makeRequest_trace [of 0 net] show "\<exists>n. n \<le> 3 \<and> fst (makeRequest net 0) = retrySchedule n"
    by (simp add: retrySchedule_def)
next
  fix k e assume "k < 3 \<and> tryRequest (net k) = Inl e \<and> transient e"
  then show "makeRequest net k =
               (Fetch # Delay ((k + 1) * 1000) # fst (makeRequest net (k + 1)),
                snd (makeRequest net (k + 1)))"
    using makeRequest_retry_step [of net k e] by (simp add: API_CONFIG_def)
next
  fix e assume a: "tryRequest (net 3) = Inl e \<and> transient e"
  then have "makeRequest net 3 = ([Fetch], Inl (case e of Err nm msg \<Rightarrow> if nm = ''AbortError'' then Err ''Error'' ''Request timeout'' else e
                          | NonError \<Rightarrow> e))"
    using makeRequest_no_retry [of net 3 e] by (simp add: API_CONFIG_def)
  with a show "makeRequest net 3 = ([Fetch], Inl e)"
    by (auto simp: transient_def split: thrown.splits)
next
  fix k status b
  assume "latency (net k) < 10000 \<and> outcome (net k) = Responded status b \<and> \<not> ok status"
  then show "makeRequest net k =
               ([Fetch], Inl (Err ''Error'' (''HTTP error! status: '' @ showNat status)))"
    using makeRequest_http [of net k status b] by (simp add: API_CONFIG_def)
qed

theorem makeRequest_retry_witness:
  "makeRequest downNet 0 =
     ([Fetch, Delay 1000, Fetch, Delay 2000, Fetch, Delay 3000, Fetch],
      Inl (Err ''TypeError'' ''network error''))
   \<and> makeRequest http500Net 0 = ([Fetch], Inl (Err ''Error'' ''HTTP error! status: 500''))"
proof -
  note t = tryRequest_downNet transient_network_error
  from makeRequest_retry [of downNet]
  have 3: "makeRequest downNet 3 = ([Fetch], Inl (Err ''TypeError'' ''network error''))"
    by (simp add: t)
  from makeRequest_retry [of downNet]
  have s: "\<And>k e. k < 3 \<and> tryRequest (downNet k) = Inl e \<and> transient e
         \<Longrightarrow> makeRequest downNet k =
               (Fetch # Delay ((k + 1) * 1000) # fst (makeRequest downNet (k + 1)),
                snd (makeRequest downNet (k + 1)))"
    by blast
  have 2: "makeRequest downNet 2 = ([Fetch, Delay 3000, Fetch], Inl (Err ''TypeError'' ''network error''))"
    using s [of 2 "Err ''TypeError'' ''network error''"] 3 by (simp add: t)
  have 1: "makeRequest downNet 1 =
      ([Fetch, Delay 2000, Fetch, Delay 3000, Fetch], Inl (Err ''TypeError'' ''network error''))"
    using s [of 1 "Err ''TypeError'' ''network error''"] 2 by (simp add: t numeral_2_eq_2)
  have 0: "makeRequest downNet 0 =
      ([Fetch, Delay 1000, Fetch, Delay 2000, Fetch, Delay 3000, Fetch],
       Inl (Err ''TypeError'' ''network error''))"
    using s [of 0 "Err ''TypeError'' ''network error''"] 1 by (simp add: t)
  have h: "latency (http500Net 0) < 10000 \<and> outcome (http500Net 0) = Responded 500 (JsonData (JObj []))
           \<and> \<not> ok 500"
    by (simp add: http500Net_def ok_def)
  from makeRequest_retry [of http500Net] h
  have "makeRequest http500Net 0 = ([Fetch], Inl (Err ''Error'' (''HTTP error! status: '' @ showNat 500)))"
    by blast
  with 0 show ?thesis by (simp add: showNat_500)
qed

text \<open>
  Claim C3, as the code has it. The timeout is 10000 milliseconds. A fetch that has not
  settled by then is aborted and rejected with an \<open>AbortError\<close>, which the retry test
  never classifies as transient: the \<open>catch\<close> block has a branch of its own for it, and
  the request fails with the error \<open>Request timeout\<close> after that single fetch, at every
  retry count. The failure is thrown to the caller at once; no delay and no further fetch
  follow.
\<close>

theorem makeRequest_timeout_not_retried:
  "TIMEOUT API_CONFIG = 10000
   \<and> \<not> transient (Err ''AbortError'' msg)
   \<and> (10000 \<le> latency (net k)
        \<longrightarrow> tryRequest (net k) = Inl (Err ''AbortError'' ''Aborted'')
          \<and> makeRequest net k = ([Fetch], Inl (Err ''Error'' ''Request timeout'')))"
proof (intro conjI impI)
  show "TIMEOUT API_CONFIG = 10000" by (simp add: API_CONFIG_def)
  show "\<not> transient (Err ''AbortError'' msg)" by (simp add: transient_def)
next
  assume "10000 \<le> latency (net k)"
  then have a: "TIMEOUT API_CONFIG \<le> latency (net k)" by (simp add: API_CONFIG_def)
  then show "tryRequest (net k) = Inl (Err ''AbortError'' ''Aborted'')"
    by (simp add: tryRequest_def)
  from a show "makeRequest net k = ([Fetch], Inl (Err ''Error'' ''Request timeout''))"
    by (rule makeRequest_timeout)
qed

theorem makeRequest_timeout_not_retried_witness:
  "tryRequest (slowNet 2) = Inl (Err ''AbortError'' ''Aborted'')
   \<and> makeRequest slowNet 2 = ([Fetch], Inl (Err ''Error'' ''Request timeout''))"
proof -
  have "10000 \<le> latency (slowNet 2)" by (simp add: slowNet_def)
  with makeRequest_timeout_not_retried [of msg slowNet 2] show ?thesis by blast
qed

text \<open>
  The claim as written fails: when every fetch takes 15 seconds, the request made at retry
  count 0 is one fetch and the error \<open>Request timeout\<close>, with no retry, and that error is
  what \<open>getTopGainers\<close> throws.
\<close>

theorem makeRequest_timeout_retried_counterexample:
  "makeRequest slowNet 0 = ([Fetch], Inl (Err ''Error'' ''Request timeout''))
   \<and> getTopGainers slowNet = ([Fetch], Inl (Err ''Error'' ''Request timeout''))"
proof -
  have "TIMEOUT API_CONFIG \<le> latency (slowNet 0)"
    by (simp add: slowNet_def API_CONFIG_def)
  then have "makeRequest slowNet 0 = ([Fetch], Inl (Err ''Error'' ''Request timeout''))"
    by (rule makeRequest_timeout)
  then show ?thesis
    by (simp add: getTopGainers_def getMovers_def)
qed



lemma getMovers_failure:
  "makeRequest net 0 = (evs, Inl (Err nm msg)) \<Longrightarrow> getMovers field fallback net = (evs, Inl (Err ''Error'' msg))"
  by (simp add: getMovers_def)





section \<open>Movers hook and screen: proofs\<close>

lemma getMovers_success:
  "makeRequest net 0 = (evs, Inr d) \<Longrightarrow> validateTopGainersResponse (Some d) = Inr (Some v)
   \<Longrightarrow> getMovers field fallback net = (evs, Inr (field v))"
  by (simp add: getMovers_def)

text \<open>
  Claim C5 does not hold of the code. A fetch that succeeds with no losers stores the
  empty-state message in the \<open>error\<close> field, and \<open>renderContent\<close> shows it with the
  \<open>ErrorState\<close> component, the one a failed fetch is shown with; the \<open>EmptyState\<close>
  branch is not reached.
\<close>

theorem empty_result_rendered_as_error:
  "getTopLosers emptyNet = ([Fetch], Inr [])
   \<and> error (topLosersFetch emptyNet st) = Some ''No top losers available at the moment''
   \<and> renderContent (topLosersFetch emptyNet st) = ErrorState ''No top losers available at the moment''
   \<and> renderContent (topLosersFetch slowNet st) = ErrorState ''Request timeout''"
proof -
  have t: "tryRequest (emptyNet 0) = Inr (JObj [(''top_gainers'', JArr []), (''top_losers'', JArr [])])"
    by (simp add: tryRequest_def emptyNet_def API_CONFIG_def ok_def)
  have v: "validateTopGainersResponse (Some (JObj [(''top_gainers'', JArr []), (''top_losers'', JArr [])]))
           = Inr (Some \<lparr>top_gainers = [], top_losers = [], last_updated_utc = None\<rparr>)"
    by (simp add: validateTopGainersResponse_def validateStockData_def Let_def)
  have a: "getTopLosers emptyNet = ([Fetch], Inr [])"
    using getMovers_success [of emptyNet "[Fetch]" _ _ top_losers] makeRequest_success [of emptyNet 0] t v
    by (simp add: getTopLosers_def)
  have s: "getTopLosers slowNet = ([Fetch], Inl (Err ''Error'' ''Request timeout''))"
    using makeRequest_timeout [of slowNet 0]
    by (simp add: getTopLosers_def getMovers_failure slowNet_def API_CONFIG_def)
  show ?thesis
    by (simp add: a s topLosersFetch_def fetchData_def renderContent_def)
qed

section \<open>Stock overview cache: proofs\<close>

lemma showNat_503: "showNat 503 = ''503''"
  by (simp add: showNat.simps [of 503] showNat.simps [of 50] showNat.simps [of 5] digitChar_def)

lemma fetchStockOverview_hit:
  "cache st (''overview_'' @ s) = Some c \<Longrightarrow> fetchStockOverview net s st = (Inr c, st)"
  by (simp add: fetchStockOverview_def)

lemma fetchStockOverview_miss_ok:
  "cache st (''overview_'' @ s) = None
   \<Longrightarrow> fetchData_overview (net s (length (fetches st))) = Inr d
   \<Longrightarrow> fetchStockOverview net s st =
         (Inr d, st\<lparr>fetches := fetches st @ [s], cache := (cache st)(''overview_'' @ s \<mapsto> d)\<rparr>)"
  by (simp add: fetchStockOverview_def)

lemma fetchStockOverview_miss_fail:
  "cache st (''overview_'' @ s) = None
   \<Longrightarrow> fetchData_overview (net s (length (fetches st))) = Inl e
   \<Longrightarrow> fetchStockOverview net s st = (Inl e, st\<lparr>fetches := fetches st @ [s]\<rparr>)"
  by (simp add: fetchStockOverview_def)

lemma fetchStockOverview_fst:
  "fst (fetchStockOverview net s st) =
     (case cache st (''overview_'' @ s) of
        Some cached \<Rightarrow> Inr cached
      | None \<Rightarrow> fetchData_overview (net s (length (fetches st))))"
  by (simp add: fetchStockOverview_def Let_def split: option.splits sum.splits)

lemma fetchStockOverview_fetches:
  "fetches (snd (fetchStockOverview net s st)) =
     (case cache st (''overview_'' @ s) of
        Some cached \<Rightarrow> fetches st
      | None \<Rightarrow> fetches st @ [s])"
  by (simp add: fetchStockOverview_def Let_def split: option.splits sum.splits)

text \<open>
  Claim C2. A call of \<open>fetchStockOverview\<close> for \<open>s\<close> returns the cached payload on a hit,
  and on a miss what the one network fetch it makes gives. If the call succeeds with \<open>d\<close>:
  on a miss \<open>d\<close> is the payload the network answered, exactly one fetch was made and
  \<open>d\<close> was stored under the cache key of \<open>s\<close>, nothing else in the cache changing; on a
  hit \<open>d\<close> is the payload stored before and the state is untouched; either way the next
  call returns the same \<open>d\<close> and leaves the state, with its log of network fetches, as it
  is. If the call fails, it was a miss and the error is the one of the fetch; the cache is
  unchanged with nothing under the key of \<open>s\<close>, one fetch was made, and the next call
  fetches again and returns what that second fetch gives.
\<close>

theorem fetchStockOverview_cache:
  "fst (fetchStockOverview net s st) =
     (case cache st (''overview_'' @ s) of
        Some cached \<Rightarrow> Inr cached
      | None \<Rightarrow> fetchData_overview (net s (length (fetches st))))
   \<and> (\<forall>d st1. fetchStockOverview net s st = (Inr d, st1) \<longrightarrow>
        cache st1 (''overview_'' @ s) = Some d
      \<and> fetchStockOverview net s st1 = (Inr d, st1)
      \<and> (cache st (''overview_'' @ s) = None \<longrightarrow>
            fetchData_overview (net s (length (fetches st))) = Inr d
          \<and> fetches st1 = fetches st @ [s]
          \<and> cache st1 = (cache st)(''overview_'' @ s \<mapsto> d))
      \<and> (cache st (''overview_'' @ s) \<noteq> None \<longrightarrow>
            cache st (''overview_'' @ s) = Some d \<and> st1 = st))
   \<and> (\<forall>e st1. fetchStockOverview net s st = (Inl e, st1) \<longrightarrow>
        cache st (''overview_'' @ s) = None
      \<and> fetchData_overview (net s (length (fetches st))) = Inl e
      \<and> cache st1 = cache st \<and> cache st1 (''overview_'' @ s) = None
      \<and> fetches st1 = fetches st @ [s]
      \<and> fst (fetchStockOverview net s st1) = fetchData_overview (net s (Suc (length (fetches st))))
      \<and> fetches (snd (fetchStockOverview net s st1)) = fetches st @ [s, s])"
proof -
  let ?k = "''overview_'' @ s"
  let ?f = "fetchData_overview (net s (length (fetches st)))"
  have ok: "cache st1 ?k = Some d \<and> fetchStockOverview net s st1 = (Inr d, st1)
      \<and> (cache st ?k = None \<longrightarrow>
            ?f = Inr d \<and> fetches st1 = fetches st @ [s] \<and> cache st1 = (cache st)(?k \<mapsto> d))
      \<and> (cache st ?k \<noteq> None \<longrightarrow> cache st ?k = Some d \<and> st1 = st)"
    if r: "fetchStockOverview net s st = (Inr d, st1)" for d st1
  proof (cases "cache st ?k")
    case (Some c)
    with r fetchStockOverview_hit [of st s c net] have "c = d" "st1 = st" by simp_all
    with Some show ?thesis by (simp add: fetchStockOverview_hit)
  next
    case None
    show ?thesis
    proof (cases ?f)
      case (Inl e)
      with r None fetchStockOverview_miss_fail [of st s net e] show ?thesis by simp
    next
      case (Inr d')
      with r None fetchStockOverview_miss_ok [of st s net d']
      have d: "d' = d"
        and st1: "st1 = st\<lparr>fetches := fetches st @ [s], cache := (cache st)(?k \<mapsto> d)\<rparr>"
        by simp_all
      from st1 have c1: "cache st1 ?k = Some d" by simp
      from c1 have "fetchStockOverview net s st1 = (Inr d, st1)"
        by (rule fetchStockOverview_hit)
      with c1 None Inr d st1 show ?thesis by simp
    qed
  qed
  have bad: "cache st ?k = None \<and> ?f = Inl e \<and> cache st1 = cache st \<and> cache st1 ?k = None
      \<and> fetches st1 = fetches st @ [s]
      \<and> fst (fetchStockOverview net s st1) = fetchData_overview (net s (Suc (length (fetches st))))
      \<and> fetches (snd (fetchStockOverview net s st1)) = fetches st @ [s, s]"
    if r: "fetchStockOverview net s st = (Inl e, st1)" for e st1
  proof (cases "cache st ?k")
    case (Some c)
    with r fetchStockOverview_hit [of st s c net] show ?thesis by simp
  next
    case None
    show ?thesis
    proof (cases ?f)
      case (Inr d)
      with r None fetchStockOverview_miss_ok [of st s net d] show ?thesis by simp
    next
      case (Inl e')
      with r None fetchStockOverview_miss_fail [of st s net e']
      have e: "e' = e" and st1: "st1 = st\<lparr>fetches := fetches st @ [s]\<rparr>" by simp_all
      from st1 None have c1: "cache st1 ?k = None" "cache st1 = cache st"
        "fetches st1 = fetches st @ [s]" by simp_all
      have "fst (fetchStockOverview net s st1) = fetchData_overview (net s (Suc (length (fetches st))))"
        unfolding st1 using None by (simp add: fetchStockOverview_fst)
      moreover have "fetches (snd (fetchStockOverview net s st1)) = fetches st @ [s, s]"
        unfolding st1 using None by (simp add: fetchStockOverview_fetches)
      ultimately show ?thesis using None Inl e c1 by simp
    qed
  qed
  from fetchStockOverview_fst [of net s st] ok bad show ?thesis by blast
qed

theorem fetchStockOverview_cache_witness:
  "fetchData_overview (overviewNet ''IBM'' 0) = Inr (JObj [(''Symbol'', JStr ''IBM'')])
   \<and> fst (fetchStockOverview overviewNet ''IBM'' coldState) = Inr (JObj [(''Symbol'', JStr ''IBM'')])
   \<and> fst (fetchStockOverview overviewNet ''IBM'' (snd (fetchStockOverview overviewNet ''IBM'' coldState)))
       = Inr (JObj [(''Symbol'', JStr ''IBM'')])
   \<and> fetches (snd (fetchStockOverview overviewNet ''IBM''
                    (snd (fetchStockOverview overviewNet ''IBM'' coldState)))) = [''IBM'']
   \<and> fst (fetchStockOverview recoveringNet ''IBM'' coldState)
       = Inl (Err ''Error'' ''Failed to fetch stock overview: HTTP error! status: 503'')
   \<and> fst (fetchStockOverview recoveringNet ''IBM'' (snd (fetchStockOverview recoveringNet ''IBM'' coldState)))
       = Inr (JObj [(''Symbol'', JStr ''IBM'')])
   \<and> fetches (snd (fetchStockOverview recoveringNet ''IBM''
                    (snd (fetchStockOverview recoveringNet ''IBM'' coldState)))) = [''IBM'', ''IBM'']"
proof -
  let ?d = "JObj [(''Symbol'', JStr ''IBM'')]"
  let ?e = "Err ''Error'' ''Failed to fetch stock overview: HTTP error! status: 503''"
  have n: "fetchData_overview (overviewNet ''IBM'' 0) = Inr ?d"
    "fetchData_overview (recoveringNet ''IBM'' 0) = Inl ?e"
    "fetchData_overview (recoveringNet ''IBM'' (Suc 0)) = Inr ?d"
    by (simp_all add: fetchData_overview_def overviewNet_def recoveringNet_def ok_def showNat_503)
  have c: "\<And>k. cache coldState k = None" "length (fetches coldState) = 0"
    "fetches coldState = []"
    by (simp_all add: coldState_def)
  note o = fetchStockOverview_cache [of overviewNet "''IBM''" coldState]
  note r = fetchStockOverview_cache [of recoveringNet "''IBM''" coldState]
  from o [THEN conjunct1] have 1: "fst (fetchStockOverview overviewNet ''IBM'' coldState) = Inr ?d"
    by (simp add: c n)
  obtain st1 where st1: "fetchStockOverview overviewNet ''IBM'' coldState = (Inr ?d, st1)"
    using 1 by (cases "fetchStockOverview overviewNet ''IBM'' coldState") simp
  from o [THEN conjunct2, THEN conjunct1] st1
  have a0: "fetchStockOverview overviewNet ''IBM'' st1 = (Inr ?d, st1)
      \<and> (cache coldState (''overview_'' @ ''IBM'') = None \<longrightarrow>
            fetchData_overview (overviewNet ''IBM'' (length (fetches coldState))) = Inr ?d
          \<and> fetches st1 = fetches coldState @ [''IBM''])"
    by blast
  with c have a: "fetchStockOverview overviewNet ''IBM'' st1 = (Inr ?d, st1)" "fetches st1 = [''IBM'']"
    by simp_all
  from r [THEN conjunct1] have 2: "fst (fetchStockOverview recoveringNet ''IBM'' coldState) = Inl ?e"
    by (simp add: c n)
  obtain st2 where st2: "fetchStockOverview recoveringNet ''IBM'' coldState = (Inl ?e, st2)"
    using 2 by (cases "fetchStockOverview recoveringNet ''IBM'' coldState") simp
  from r [THEN conjunct2, THEN conjunct2] st2
  have b0: "fst (fetchStockOverview recoveringNet ''IBM'' st2)
        = fetchData_overview (recoveringNet ''IBM'' (Suc (length (fetches coldState))))
      \<and> fetches (snd (fetchStockOverview recoveringNet ''IBM'' st2)) = fetches coldState @ [''IBM'', ''IBM'']"
    by blast
  with c n have b: "fst (fetchStockOverview recoveringNet ''IBM'' st2) = Inr ?d"
    "fetches (snd (fetchStockOverview recoveringNet ''IBM'' st2)) = [''IBM'', ''IBM'']"
    by simp_all
  from n(1) 1 st1 a 2 st2 b show ?thesis by simp
qed

section \<open>Hybrid search: proofs\<close>

lemma fold_insert_symbol:
  "fold (\<lambda>item s. insert (symbol item) s) xs A = symbol ` set xs \<union> A"
  by (induction xs arbitrary: A) auto

text \<open>
  What one \<open>fetchSearchResults\<close> commits, in terms of the lists its closure holds: the
  matching gainers, then the matching losers, then the remote entries whose symbol is not
  among them, each part in the order of the list it comes from.
\<close>

lemma fetchSearchResults_results:
  "searchResults (fetchSearchResults heldGainers heldLosers remote q st) =
     localMatches gainer q heldGainers @ localMatches loser q heldLosers
     @ filter (\<lambda>r. symbol r \<notin> symbol ` set (localMatches gainer q heldGainers
                                               @ localMatches loser q heldLosers))
         (apiSearch remote)"
  by (simp add: fetchSearchResults_def Let_def fold_insert_symbol localMatches_def
      localEntry_def containsIgnoreCase_def includesStr_sublist)

lemma localMatches_order:
  "subseq (map symbol (localMatches tag q items)) (map (\<lambda>item. Some (JStr (ticker item))) items)"
proof -
  have "map symbol (localMatches tag q items)
        = map (\<lambda>item. Some (JStr (ticker item))) (filter (\<lambda>item. containsIgnoreCase (ticker item) q) items)"
    by (simp add: localMatches_def localEntry_def)
  then show ?thesis by (simp add: subseq_map)
qed

lemma apiSearch_map:
  "\<exists>items. apiSearch remote =
     map (\<lambda>item. \<lparr>symbol = getProp item ''1. symbol'', name' = getProp item ''2. name'',
                      price' = None, source = search\<rparr>) items"
proof -
  have nil: "\<exists>items. [] = map f items" for f :: "json \<Rightarrow> HybridSearchResult"
    by (rule exI [of _ "[]"]) simp
  show ?thesis
    unfolding apiSearch_def
    by (simp split: settled.split body.split option.split json.split add: nil) blast
qed

lemma apiSearch_tagged: "r \<in> set (apiSearch remote) \<Longrightarrow> source r = search \<and> price' r = None"
  using apiSearch_map [of remote] by auto

text \<open>
  Claim C1 does not hold of the screen. After the movers have been loaded, a search for a
  query that is not blank commits the remote entries alone, none removed: the debounced
  callback runs the \<open>fetchSearchResults\<close> of the first render, whose lists are empty, while
  the state holds the loaded lists. The \<open>fetchSearchResults\<close> of the current render would
  commit the list that the claim describes.
\<close>

theorem debouncedSearch_first_render_lists:
  "trim query \<noteq> [] \<longrightarrow>
     searchResults (debouncedSearch remote query (moversLoaded gainers losers st)) = apiSearch remote
     \<and> topGainers (moversLoaded gainers losers st) = gainers
     \<and> topLosers (moversLoaded gainers losers st) = losers
     \<and> searchResults (searchCallback (fetchSearchResults gainers losers remote) query
                          (moversLoaded gainers losers st)) =
         localMatches gainer (trim query) gainers @ localMatches loser (trim query) losers
         @ filter (\<lambda>r. symbol r \<notin> symbol ` set (localMatches gainer (trim query) gainers
                                                   @ localMatches loser (trim query) losers))
             (apiSearch remote)"
  by (simp add: debouncedSearch_def searchCallback_def fetchSearchResults_results firstRender_def
      localMatches_def moversLoaded_def)

lemma lower_ex: "toLowerCase ''AA'' = ''aa''" "toLowerCase ''AAPL'' = ''aapl''"
  "toLowerCase ''MSFT'' = ''msft''" "toLowerCase ''BAA'' = ''baa''"
  by (simp_all add: toLowerCase_def lowerChar_def)

theorem debouncedSearch_first_render_lists_witness:
  "searchResults (debouncedSearch searchAnswer ''AA'' (moversLoaded someGainers someLosers firstRender)) =
     [\<lparr>symbol = Some (JStr ''AAPL''), name' = Some (JStr ''Apple Inc''),
       price' = None, source = search\<rparr>,
      \<lparr>symbol = Some (JStr ''AA''), name' = Some (JStr ''Alcoa Corp''),
       price' = None, source = search\<rparr>]
   \<and> searchResults (searchCallback (fetchSearchResults someGainers someLosers searchAnswer) ''AA''
                        (moversLoaded someGainers someLosers firstRender)) =
     [\<lparr>symbol = Some (JStr ''AAPL''), name' = Some (JStr []),
       price' = Some (JStr ''190.00''), source = gainer\<rparr>,
      \<lparr>symbol = Some (JStr ''BAA''), name' = Some (JStr []),
       price' = Some (JStr ''3.20''), source = loser\<rparr>,
      \<lparr>symbol = Some (JStr ''AA''), name' = Some (JStr ''Alcoa Corp''),
       price' = None, source = search\<rparr>]"
proof -
  have t: "trim ''AA'' = ''AA''"
    by (simp add: trim_def trimStart_def isWhiteSpace_def)
  have c: "containsIgnoreCase ''AAPL'' ''AA''" "\<not> containsIgnoreCase ''MSFT'' ''AA''"
    "containsIgnoreCase ''BAA'' ''AA''"
    by (simp_all add: containsIgnoreCase_def lower_ex includesStr_sublist [symmetric])
  have g: "localMatches gainer ''AA'' someGainers = [localEntry gainer \<lparr>ticker = ''AAPL'', price = ''190.00''\<rparr>]"
    "localMatches loser ''AA'' someLosers = [localEntry loser \<lparr>ticker = ''BAA'', price = ''3.20''\<rparr>]"
    by (simp_all add: localMatches_def someGainers_def someLosers_def c)
  have a: "apiSearch searchAnswer =
       [\<lparr>symbol = Some (JStr ''AAPL''), name' = Some (JStr ''Apple Inc''), price' = None, source = search\<rparr>,
        \<lparr>symbol = Some (JStr ''AA''), name' = Some (JStr ''Alcoa Corp''), price' = None, source = search\<rparr>]"
    by (simp add: apiSearch_def searchAnswer_def)
  from debouncedSearch_first_render_lists [of "''AA''" searchAnswer someGainers someLosers firstRender]
  show ?thesis
    by (simp add: t g a localEntry_def)
qed

end
